theory Spec2Isabelle
  imports Complex_Main "HOL-Library.AList"
begin

section \<open>Data model\<close>

text \<open>
  The program is a single Python module, \<^verbatim>\<open>app.py\<close>. Its state lives in the
  process-wide \<^verbatim>\<open>st.session_state\<close>; its collaborators are the generative backend
  (\<^verbatim>\<open>genai\<close>), the JSON decoder of the standard library (\<^verbatim>\<open>json.loads\<close>), the wall
  clock and the widgets of the user interface.

  Conventions of the embedding:
  \<^item> a Python \<^verbatim>\<open>str\<close> is a \<^typ>\<open>string\<close> whose characters are code points below 256;
  \<^item> the floats of \<^verbatim>\<open>time.time()\<close> and of the quiz score are idealised as \<^typ>\<open>real\<close>
    (no rounding of the arithmetic);
  \<^item> \<^verbatim>\<open>None\<close> is \<^term>\<open>None\<close>; an exception that a \<^verbatim>\<open>try\<close> block catches is the
    \<^term>\<open>Inl\<close> of a sum carrying \<^verbatim>\<open>str(e)\<close>; an exception nothing catches is the
    \<^term>\<open>Inl\<close> of a sum carrying a \<open>py_error\<close>;
  \<^item> every function that reads or writes \<^verbatim>\<open>st.session_state\<close> takes the state and
    returns the new one.
\<close>

datatype json =
    JNull
  | JBool bool
  | JInt int
  | JFloat real
  | JStr string
  | JArr "json list"
  | JObj "(string \<times> json) list"

datatype py_error = KeyError | TypeError | IndexError | ZeroDivisionError

text \<open>
  The three prompts are f-strings over the parameters of the request. A prompt is
  represented by the parameters it is rendered from.
\<close>

datatype task =
    CourseTask string string string
  | QuizTask string string int
  | RecommendTask "string list" "string list"

text \<open>
  What an operation does to the outside, in order: the calls to the backend client
  (\<open>Configure\<close> only stores the key in the client library; \<open>ListModels\<close> and
  \<open>Generate\<close> go out to the backend), the outcome of each rate-limit check
  (\<open>Permit\<close>), and the messages shown to the user.
\<close>

datatype event =
    Configure string
  | ListModels
  | Generate string task
  | Permit bool
  | UiWarning int
  | UiError string
  | UiInfo string

fun is_outbound :: "event \<Rightarrow> bool" where
  "is_outbound ListModels = True"
| "is_outbound (Generate m t) = True"
| "is_outbound e = False"

text \<open>
  The session state of lines 83-97 that the core uses, together with the state of the
  backend (of any type \<open>'b\<close>: the backend may answer differently at every call) and
  the events so far. \<open>working_model\<close> is \<^term>\<open>None\<close> while the key is absent from
  the session state or holds \<^verbatim>\<open>None\<close>.
\<close>

record 'b world =
  api_key :: "string option"
  working_model :: "string option"
  last_request_time :: real
  request_count :: int
  bstate :: 'b
  trace :: "event list"

definition initial_world :: "'b \<Rightarrow> 'b world" where
  "initial_world b =
     \<lparr> api_key = None, working_model = None, last_request_time = 0,
       request_count = 0, bstate = b, trace = [] \<rparr>"

text \<open>
  The backend client: \<open>configure\<close> is \<^verbatim>\<open>genai.configure(api_key=...)\<close>,
  \<open>list_models\<close> is \<^verbatim>\<open>genai.list_models()\<close> (each model with its name and its
  supported generation methods), \<open>generate_content\<close> is the construction of the
  \<^verbatim>\<open>GenerativeModel\<close>, the call of \<^verbatim>\<open>generate_content(prompt)\<close> and the read of
  \<^verbatim>\<open>response.text\<close>. \<^term>\<open>Some e\<close> or \<^term>\<open>Inl e\<close> is an exception with message \<open>e\<close>.
\<close>

record 'b backend =
  configure :: "string \<Rightarrow> 'b \<Rightarrow> string option \<times> 'b"
  list_models :: "'b \<Rightarrow> (string + (string \<times> string list) list) \<times> 'b"
  generate_content :: "string \<Rightarrow> task \<Rightarrow> 'b \<Rightarrow> (string + string) \<times> 'b"

definition log :: "event list \<Rightarrow> 'b world \<Rightarrow> 'b world" where
  "log es w = w\<lparr>trace := trace w @ es\<rparr>"

text \<open>Truthiness of a value that is \<^verbatim>\<open>None\<close> or a string.\<close>

definition truthy :: "string option \<Rightarrow> bool" where
  "truthy s = (case s of None \<Rightarrow> False | Some t \<Rightarrow> t \<noteq> [])"

section \<open>Rate limiter\<close>

text \<open>\<^verbatim>\<open>int(x)\<close> on a float truncates towards zero.\<close>

definition py_int :: "real \<Rightarrow> int" where
  "py_int x = (if 0 \<le> x then \<lfloor>x\<rfloor> else \<lceil>x\<rceil>)"

text \<open>
  \<^verbatim>\<open>rate_limit_check\<close> (lines 172-189); \<open>current_time\<close> is the value of
  \<^verbatim>\<open>time.time()\<close>. The warning shows \<^verbatim>\<open>int(wait_time)\<close> seconds.
\<close>

definition rate_limit_check :: "real \<Rightarrow> 'b world \<Rightarrow> bool \<times> 'b world" where
  "rate_limit_check current_time w =
     (let w1 = (if current_time - last_request_time w > 60
                then w\<lparr>request_count := 0, last_request_time := current_time\<rparr>
                else w);
          wait_time = 60 - (current_time - last_request_time w1)
      in if request_count w1 \<ge> 10 \<and> wait_time > 0
         then (False, log [UiWarning (py_int wait_time), Permit False] w1)
         else (True, log [Permit True] (w1\<lparr>request_count := request_count w1 + 1\<rparr>)))"

text \<open>A sequence of calls of \<^verbatim>\<open>rate_limit_check\<close> at the given clock readings.\<close>

fun permit_calls :: "real list \<Rightarrow> 'b world \<Rightarrow> bool list \<times> 'b world" where
  "permit_calls [] w = ([], w)"
| "permit_calls (t # ts) w =
     (case rate_limit_check t w of (ok, w1) \<Rightarrow>
        (case permit_calls ts w1 of (oks, w2) \<Rightarrow> (ok # oks, w2)))"

text \<open>A window that has just been opened at \<open>t0\<close>.\<close>

definition fresh_window :: "real \<Rightarrow> 'b world \<Rightarrow> 'b world" where
  "fresh_window t0 w = w\<lparr>request_count := 0, last_request_time := t0\<rparr>"

text \<open>
  Whether no call of a sequence is made exactly 60 seconds after the start of the window
  it finds.
\<close>

fun off_boundary :: "real list \<Rightarrow> 'b world \<Rightarrow> bool" where
  "off_boundary [] w = True"
| "off_boundary (t # ts) w =
     (t - last_request_time w \<noteq> 60 \<and> off_boundary ts (snd (rate_limit_check t w)))"

section \<open>Response cleaning and decoding\<close>

text \<open>
  \<^verbatim>\<open>str.isspace\<close> on the code points below 256, and \<^verbatim>\<open>str.strip()\<close>,
  \<^verbatim>\<open>str.startswith\<close>, \<^verbatim>\<open>str.endswith\<close>.
\<close>

definition py_isspace :: "char \<Rightarrow> bool" where
  "py_isspace c =
     (c \<in> set [CHR 0x09, CHR 0x0A, CHR 0x0B, CHR 0x0C, CHR 0x0D, CHR 0x1C, CHR 0x1D,
               CHR 0x1E, CHR 0x1F, CHR 0x20, CHR 0x85, CHR 0xA0])"

definition strip :: "string \<Rightarrow> string" where
  "strip s = rev (dropWhile py_isspace (rev (dropWhile py_isspace s)))"

definition startswith :: "string \<Rightarrow> string \<Rightarrow> bool" where
  "startswith s p = (take (length p) s = p)"

definition endswith :: "string \<Rightarrow> string \<Rightarrow> bool" where
  "endswith s p = (length p \<le> length s \<and> drop (length s - length p) s = p)"

text \<open>
  The cleaning that the three operations apply to \<^verbatim>\<open>response.text\<close> (lines 238-245,
  298-305 and 335-342, the same text in each): strip, drop a leading \<^verbatim>\<open>```json\<close>,
  drop a leading \<^verbatim>\<open>```\<close>, drop a trailing \<^verbatim>\<open>```\<close>, strip again.
\<close>

definition clean_response :: "string \<Rightarrow> string" where
  "clean_response response_text =
     (let text = strip response_text;
          text = (if startswith text ''```json'' then drop 7 text else text);
          text = (if startswith text ''```'' then drop 3 text else text);
          text = (if endswith text ''```'' then take (length text - 3) text else text)
      in strip text)"

text \<open>
  \<^verbatim>\<open>json.loads\<close> belongs to the standard library. It is a parameter \<open>loads\<close> of
  everything that decodes: \<^term>\<open>Inr v\<close> is the decoded value, \<^term>\<open>Inl e\<close> the
  exception it raises, with \<open>e\<close> its message.
\<close>

type_synonym decoder = "string \<Rightarrow> string + json"

definition parse_response :: "decoder \<Rightarrow> string \<Rightarrow> string + json" where
  "parse_response loads response_text = loads (clean_response response_text)"

text \<open>
  A JSON text wrapped in a fenced code block tagged \<^verbatim>\<open>json\<close>, the fence lines ended
  by newlines.
\<close>

definition fence_json :: "string \<Rightarrow> string" where
  "fence_json s = ''```json'' @ [CHR 0x0A] @ s @ [CHR 0x0A] @ ''```''"

text \<open>
  The message of the \<^verbatim>\<open>TypeError\<close> that the item assignment
  \<^verbatim>\<open>course_data['created_date'] = ...\<close> raises on a decoded value that is not a
  dictionary.
\<close>

fun setitem_message :: "json \<Rightarrow> string" where
  "setitem_message (JArr xs) = ''list indices must be integers or slices, not str''"
| "setitem_message (JStr s) = '''str' object does not support item assignment''"
| "setitem_message (JInt i) = '''int' object does not support item assignment''"
| "setitem_message (JFloat x) = '''float' object does not support item assignment''"
| "setitem_message (JBool b) = '''bool' object does not support item assignment''"
| "setitem_message v = '''NoneType' object does not support item assignment''"

text \<open>
  Lines 238-249 of \<^verbatim>\<open>generate_course\<close>, from the response text to the returned
  course: clean, decode, and stamp the creation date (\<open>today\<close> is
  \<^verbatim>\<open>datetime.now().strftime("%Y-%m-%d")\<close>), the topic and the level. A Python
  dictionary keeps a key's position when the key is assigned again and appends a new key,
  as \<^const>\<open>AList.update\<close> does. \<^term>\<open>Inl e\<close> is an exception that the
  \<^verbatim>\<open>except Exception\<close> of line 250 catches.
\<close>

definition course_from_text ::
  "decoder \<Rightarrow> string \<Rightarrow> string \<Rightarrow> string \<Rightarrow> string \<Rightarrow> string + json" where
  "course_from_text loads today topic level response_text =
     (case parse_response loads response_text of
        Inl e \<Rightarrow> Inl e
      | Inr (JObj course_data) \<Rightarrow>
          Inr (JObj (AList.update ''level'' (JStr level)
                 (AList.update ''user_topic'' (JStr topic)
                   (AList.update ''created_date'' (JStr today) course_data))))
      | Inr v \<Rightarrow> Inl (setitem_message v))"

text \<open>Lines 298-305 of \<^verbatim>\<open>generate_quiz\<close>: the decoded value is returned as it is.\<close>

definition quiz_from_text :: "decoder \<Rightarrow> string \<Rightarrow> string + json" where
  "quiz_from_text loads response_text = parse_response loads response_text"

text \<open>Whether a decoded value is a dictionary with the given key.\<close>

fun has_key :: "string \<Rightarrow> json \<Rightarrow> bool" where
  "has_key k (JObj kvs) = (map_of kvs k \<noteq> None)"
| "has_key k v = False"

section \<open>Model resolution\<close>

text \<open>
  \<^verbatim>\<open>name.replace(old, '')\<close>: every occurrence of \<open>old\<close> is removed, scanning from
  the left.
\<close>

function remove_all :: "string \<Rightarrow> string \<Rightarrow> string" where
  "remove_all old [] = []"
| "remove_all old (c # cs) =
     (if old \<noteq> [] \<and> startswith (c # cs) old
      then remove_all old (drop (length old) (c # cs))
      else c # remove_all old cs)"
  by pat_completeness auto
termination
  by (relation "measure (\<lambda>(old, s). length s)") (auto simp add: neq_Nil_conv)

text \<open>\<^verbatim>\<open>configure_gemini\<close> (lines 115-123).\<close>

definition configure_gemini :: "'b backend \<Rightarrow> 'b world \<Rightarrow> bool \<times> 'b world" where
  "configure_gemini be w =
     (case api_key w of
        None \<Rightarrow> (False, w)
      | Some k \<Rightarrow>
          if k = [] then (False, w)
          else (case configure be k (bstate w) of
                  (None, b) \<Rightarrow> (True, log [Configure k] (w\<lparr>bstate := b\<rparr>))
                | (Some e, b) \<Rightarrow>
                    (False, log [Configure k, UiError (''API Configuration Error: '' @ e)]
                              (w\<lparr>bstate := b\<rparr>))))"

text \<open>
  \<^verbatim>\<open>test_api_key_and_list_models\<close> (lines 125-140): the pair of the model names and
  the error message, one of them \<^verbatim>\<open>None\<close>.
\<close>

definition test_api_key_and_list_models ::
  "'b backend \<Rightarrow> 'b world \<Rightarrow> (string list option \<times> string option) \<times> 'b world" where
  "test_api_key_and_list_models be w =
     (case api_key w of
        None \<Rightarrow> ((None, Some ''No API key provided''), w)
      | Some k \<Rightarrow>
          if k = [] then ((None, Some ''No API key provided''), w)
          else (case configure be k (bstate w) of
                  (Some e, b) \<Rightarrow> ((None, Some e), log [Configure k] (w\<lparr>bstate := b\<rparr>))
                | (None, b) \<Rightarrow>
                    (case list_models be b of
                       (Inl e, b') \<Rightarrow>
                         ((None, Some e), log [Configure k, ListModels] (w\<lparr>bstate := b'\<rparr>))
                     | (Inr ms, b') \<Rightarrow>
                         ((Some (map (\<lambda>m. remove_all ''models/'' (fst m))
                                   (filter (\<lambda>m. ''generateContent'' \<in> set (snd m)) ms)),
                           None),
                          log [Configure k, ListModels] (w\<lparr>bstate := b'\<rparr>)))))"

text \<open>The preference list of lines 152-158.\<close>

definition preferred :: "string list" where
  "preferred =
     [''gemini-1.5-flash-8b'', ''gemini-1.5-flash'', ''gemini-2.0-flash-exp'',
      ''gemini-1.5-pro'', ''gemini-pro'']"

text \<open>
  \<^verbatim>\<open>get_working_model\<close> (lines 142-170). The loop over the preference list returns at
  the first preferred name that is in the list of available models.
\<close>

definition get_working_model :: "'b backend \<Rightarrow> 'b world \<Rightarrow> string option \<times> 'b world" where
  "get_working_model be w =
     (if truthy (working_model w) then (working_model w, w)
      else (case test_api_key_and_list_models be w of
              ((None, error), w1) \<Rightarrow> (None, w1)
            | ((Some [], error), w1) \<Rightarrow> (None, w1)
            | ((Some (m # ms), error), w1) \<Rightarrow>
                (case find (\<lambda>pref. pref \<in> set (m # ms)) preferred of
                   Some pref \<Rightarrow> (Some pref, w1\<lparr>working_model := Some pref\<rparr>)
                 | None \<Rightarrow> (Some m, w1\<lparr>working_model := Some m\<rparr>))))"

section \<open>Content generation\<close>

text \<open>
  The call of the backend inside the \<^verbatim>\<open>try\<close> block of each operation: the
  construction of the model object with the four safety categories set to
  \<^verbatim>\<open>BLOCK_NONE\<close>, \<^verbatim>\<open>generate_content(prompt)\<close> and the read of
  \<^verbatim>\<open>response.text\<close>.
\<close>

definition ask_model ::
  "'b backend \<Rightarrow> string \<Rightarrow> task \<Rightarrow> 'b world \<Rightarrow> (string + string) \<times> 'b world" where
  "ask_model be model_name t w =
     (case generate_content be model_name t (bstate w) of
        (r, b) \<Rightarrow> (r, log [Generate model_name t] (w\<lparr>bstate := b\<rparr>)))"

text \<open>
  \<^verbatim>\<open>generate_course\<close> (lines 191-252); \<open>now\<close> is the clock reading of the
  rate-limit check. The result is the course or \<^verbatim>\<open>None\<close>.
\<close>

definition generate_course ::
  "'b backend \<Rightarrow> decoder \<Rightarrow> real \<Rightarrow> string \<Rightarrow> string \<Rightarrow> string \<Rightarrow> string \<Rightarrow> 'b world
     \<Rightarrow> json option \<times> 'b world" where
  "generate_course be loads now today topic level duration w =
     (case configure_gemini be w of
        (False, w1) \<Rightarrow> (None, w1)
      | (True, w1) \<Rightarrow>
     (case rate_limit_check now w1 of
        (False, w2) \<Rightarrow> (None, w2)
      | (True, w2) \<Rightarrow>
     (case get_working_model be w2 of
        (model_name, w3) \<Rightarrow>
          if \<not> truthy model_name
          then (None, log [UiError ''No working model found. Please check your API key.''] w3)
          else
     (case ask_model be (the model_name) (CourseTask topic level duration)
             (log [UiInfo (''Using model: '' @ the model_name)] w3) of
        (Inl e, w4) \<Rightarrow> (None, log [UiError (''Error generating course: '' @ e)] w4)
      | (Inr response_text, w4) \<Rightarrow>
          (case course_from_text loads today topic level response_text of
             Inl e \<Rightarrow> (None, log [UiError (''Error generating course: '' @ e)] w4)
           | Inr course_data \<Rightarrow> (Some course_data, w4))))))"

text \<open>\<^verbatim>\<open>generate_quiz\<close> (lines 254-308).\<close>

definition generate_quiz ::
  "'b backend \<Rightarrow> decoder \<Rightarrow> real \<Rightarrow> string \<Rightarrow> string \<Rightarrow> int \<Rightarrow> 'b world
     \<Rightarrow> json option \<times> 'b world" where
  "generate_quiz be loads now topic difficulty num_questions w =
     (case configure_gemini be w of
        (False, w1) \<Rightarrow> (None, w1)
      | (True, w1) \<Rightarrow>
     (case rate_limit_check now w1 of
        (False, w2) \<Rightarrow> (None, w2)
      | (True, w2) \<Rightarrow>
     (case get_working_model be w2 of
        (model_name, w3) \<Rightarrow>
          if \<not> truthy model_name
          then (None, log [UiError ''No working model found. Please check your API key.'',
                           UiInfo ''Get a new API key from: https://aistudio.google.com/app/apikey'']
                        w3)
          else
     (case ask_model be (the model_name) (QuizTask topic difficulty num_questions)
             (log [UiInfo (''Using model: '' @ the model_name)] w3) of
        (Inl e, w4) \<Rightarrow> (None, log [UiError (''Error generating quiz: '' @ e)] w4)
      | (Inr response_text, w4) \<Rightarrow>
          (case quiz_from_text loads response_text of
             Inl e \<Rightarrow> (None, log [UiError (''Error generating quiz: '' @ e)] w4)
           | Inr quiz \<Rightarrow> (Some quiz, w4))))))"

text \<open>The two fixed lists of \<^verbatim>\<open>get_recommendations\<close> (lines 312, 316 and 344).\<close>

definition fallback_recommendations :: json where
  "fallback_recommendations =
     JArr [JStr ''Python Programming'', JStr ''Data Science Basics'',
           JStr ''Web Development'', JStr ''Machine Learning Introduction'']"

definition default_recommendations :: json where
  "default_recommendations =
     JArr [JStr ''Python Programming'', JStr ''Data Science Basics'',
           JStr ''Web Development'', JStr ''Machine Learning Introduction'',
           JStr ''AI Fundamentals'']"

text \<open>
  \<^verbatim>\<open>get_recommendations\<close> (lines 310-344). The condition \<^verbatim>\<open>not configure_gemini()
  or not user_history\<close> calls \<^verbatim>\<open>configure_gemini\<close> first and looks at the history
  only when that succeeds. The result type has no error: \<^verbatim>\<open>configure_gemini\<close> and
  \<^verbatim>\<open>get_working_model\<close> catch the exceptions of their backend calls themselves, and
  everything after them is inside the \<^verbatim>\<open>try\<close> of line 318, whose
  \<^verbatim>\<open>except\<close> returns the default list.
\<close>

definition get_recommendations ::
  "'b backend \<Rightarrow> decoder \<Rightarrow> string list \<Rightarrow> string list \<Rightarrow> 'b world \<Rightarrow> json \<times> 'b world" where
  "get_recommendations be loads user_history preferences w =
     (case configure_gemini be w of
        (False, w1) \<Rightarrow> (fallback_recommendations, w1)
      | (True, w1) \<Rightarrow>
          if user_history = [] then (fallback_recommendations, w1)
          else
     (case get_working_model be w1 of
        (model_name, w2) \<Rightarrow>
          if truthy model_name
          then
     (case ask_model be (the model_name) (RecommendTask user_history preferences) w2 of
        (Inl e, w3) \<Rightarrow> (default_recommendations, w3)
      | (Inr response_text, w3) \<Rightarrow>
          (case parse_response loads response_text of
             Inl e \<Rightarrow> (default_recommendations, w3)
           | Inr v \<Rightarrow> (v, w3)))
          else (default_recommendations, w2)))"

text \<open>
  Whether every outbound backend call in a list of events comes after a successful
  rate-limit check in the same list; \<open>p\<close> tells whether one has been seen.
\<close>

fun gated :: "bool \<Rightarrow> event list \<Rightarrow> bool" where
  "gated p [] = True"
| "gated p (Permit b # es) = gated (p \<or> b) es"
| "gated p (e # es) = ((if is_outbound e then p else True) \<and> gated p es)"

section \<open>Progress store and quiz submission\<close>

text \<open>
  An entry of \<^verbatim>\<open>quiz_history\<close> (the dictionary with the keys \<^verbatim>\<open>topic\<close>,
  \<^verbatim>\<open>score\<close> and \<^verbatim>\<open>date\<close>) and the per-user dictionary of lines 105-113.
\<close>

record attempt =
  at_topic :: string
  at_score :: real
  at_date :: string

record user_stats =
  courses :: "json list"
  quiz_history :: "attempt list"
  learning_preferences :: "string list"
  total_score :: real
  courses_completed :: int
  quizzes_taken :: int
  learning_streak :: int

type_synonym user_data = "string \<rightharpoonup> user_stats"

definition fresh_user_stats :: user_stats where
  "fresh_user_stats =
     \<lparr> courses = [], quiz_history = [], learning_preferences = [], total_score = 0,
       courses_completed = 0, quizzes_taken = 0, learning_streak = 0 \<rparr>"

text \<open>\<^verbatim>\<open>initialize_user_data\<close> (lines 103-113).\<close>

definition initialize_user_data :: "string \<Rightarrow> user_data \<Rightarrow> user_data" where
  "initialize_user_data username ud =
     (if username \<in> dom ud then ud else ud(username \<mapsto> fresh_user_stats))"

text \<open>
  Lines 590-597 of \<^verbatim>\<open>quiz_page\<close>: the attempt is recorded in the entry of the current
  user; \<open>date\<close> is \<^verbatim>\<open>datetime.now().strftime("%Y-%m-%d %H:%M")\<close>. The lookup of a
  user without an entry raises \<^verbatim>\<open>KeyError\<close>.
\<close>

definition record_quiz_attempt ::
  "string \<Rightarrow> string \<Rightarrow> real \<Rightarrow> string \<Rightarrow> user_data \<Rightarrow> py_error + user_data" where
  "record_quiz_attempt current_user quiz_topic score date ud =
     (case ud current_user of
        None \<Rightarrow> Inl KeyError
      | Some stats \<Rightarrow>
          Inr (ud(current_user \<mapsto>
                 stats\<lparr> quizzes_taken := quizzes_taken stats + 1,
                        total_score := total_score stats + score,
                        quiz_history := quiz_history stats @
                          [\<lparr> at_topic = quiz_topic, at_score = score, at_date = date \<rparr>] \<rparr>)))"

text \<open>A sequence of recordings for one user, one after the other.\<close>

fun record_attempts :: "string \<Rightarrow> attempt list \<Rightarrow> user_data \<Rightarrow> py_error + user_data" where
  "record_attempts current_user [] ud = Inr ud"
| "record_attempts current_user (a # as) ud =
     (case record_quiz_attempt current_user (at_topic a) (at_score a) (at_date a) ud of
        Inl e \<Rightarrow> Inl e
      | Inr ud1 \<Rightarrow> record_attempts current_user as ud1)"

text \<open>
  A question of a quiz, with the keys of the prompt's schema (lines 283-292); a quiz is
  the list \<^verbatim>\<open>quiz['questions']\<close>.
\<close>

record question =
  q_question :: string
  q_options :: "string list"
  q_correct :: string
  q_explanation :: string

text \<open>
  Lines 572-577: for each question the radio widget returns the selected option
  (\<open>radio idx options\<close>; \<^verbatim>\<open>None\<close> when there is nothing to select), and the first
  character of the selection is stored under the index of the question.
  \<^verbatim>\<open>None[0]\<close> raises \<^verbatim>\<open>TypeError\<close>, \<^verbatim>\<open>''[0]\<close> raises \<^verbatim>\<open>IndexError\<close>.
\<close>

fun render_questions ::
  "(nat \<Rightarrow> string list \<Rightarrow> string option) \<Rightarrow> question list \<Rightarrow> nat \<Rightarrow> (nat \<rightharpoonup> string)
     \<Rightarrow> py_error + (nat \<rightharpoonup> string)" where
  "render_questions radio [] idx quiz_answers = Inr quiz_answers"
| "render_questions radio (q # qs) idx quiz_answers =
     (case radio idx (q_options q) of
        None \<Rightarrow> Inl TypeError
      | Some [] \<Rightarrow> Inl IndexError
      | Some (c # cs) \<Rightarrow> render_questions radio qs (Suc idx) (quiz_answers(idx \<mapsto> [c])))"

text \<open>The test of line 584: \<^verbatim>\<open>quiz_answers.get(idx) == q['correct']\<close>.\<close>

definition is_correct :: "(nat \<rightharpoonup> string) \<Rightarrow> nat \<Rightarrow> question \<Rightarrow> bool" where
  "is_correct quiz_answers idx q = (quiz_answers idx = Some (q_correct q))"

text \<open>The counting loop of lines 582-585.\<close>

fun count_correct :: "question list \<Rightarrow> nat \<Rightarrow> (nat \<rightharpoonup> string) \<Rightarrow> nat \<Rightarrow> nat" where
  "count_correct [] idx quiz_answers correct = correct"
| "count_correct (q # qs) idx quiz_answers correct =
     count_correct qs (Suc idx) quiz_answers
       (if is_correct quiz_answers idx q then correct + 1 else correct)"

text \<open>
  Lines 581-597: the submission. The division by the number of questions raises
  \<^verbatim>\<open>ZeroDivisionError\<close> on a quiz without questions. The result is the score and the
  updated store.
\<close>

definition submit_quiz ::
  "question list \<Rightarrow> (nat \<rightharpoonup> string) \<Rightarrow> string \<Rightarrow> string \<Rightarrow> string \<Rightarrow> user_data
     \<Rightarrow> py_error + (real \<times> user_data)" where
  "submit_quiz questions quiz_answers current_user quiz_topic date ud =
     (let correct = count_correct questions 0 quiz_answers 0
      in if questions = [] then Inl ZeroDivisionError
         else (let score = (real correct / real (length questions)) * 100
               in case record_quiz_attempt current_user quiz_topic score date ud of
                    Inl e \<Rightarrow> Inl e
                  | Inr ud1 \<Rightarrow> Inr (score, ud1)))"

text \<open>
  The number that \<^verbatim>\<open>f"{score:.1f}"\<close> prints (line 600), in tenths: the value rounded
  to the nearest tenth, a tie going to the even neighbour.
\<close>

definition round_half_even :: "real \<Rightarrow> int" where
  "round_half_even x =
     (let f = \<lfloor>x\<rfloor>; d = x - of_int f
      in if d < 1 / 2 then f else if d > 1 / 2 then f + 1 else if even f then f else f + 1)"

definition format_1f :: "real \<Rightarrow> int" where
  "format_1f x = round_half_even (x * 10)"

text \<open>The number of indices below \<open>n\<close> whose stored answer equals the \<^verbatim>\<open>correct\<close> field.\<close>

definition matches :: "question list \<Rightarrow> (nat \<rightharpoonup> string) \<Rightarrow> nat" where
  "matches questions quiz_answers =
     length (filter (\<lambda>i. is_correct quiz_answers i (questions ! i)) [0..<length questions])"

section \<open>Sample data\<close>

text \<open>
  A quiz as the backend is asked to write it, the value it decodes to, the quiz cut off
  in the middle, and a decoder that returns what \<^verbatim>\<open>json.loads\<close> returns on the
  four texts of its table: the quiz and two further valid texts with their values, and
  the cut-off quiz, cleaned, with the exception that \<^verbatim>\<open>json.loads\<close> raises on it.
  A text outside the table is answered with an exception that says so; no example uses
  one.
\<close>

definition quiz_text :: string where
  \<open>quiz_text = ''{"questions": [{"question": "2 + 2?", "options": ["A) 3", "B) 4", "C) 5", "D) 6"], "correct": "B", "explanation": "2 + 2 = 4"}]}''\<close>

definition quiz_value :: json where
  "quiz_value =
     JObj [(''questions'', JArr [JObj [(''question'', JStr ''2 + 2?''),
        (''options'', JArr [JStr ''A) 3'', JStr ''B) 4'', JStr ''C) 5'', JStr ''D) 6'']),
        (''correct'', JStr ''B''), (''explanation'', JStr ''2 + 2 = 4'')]])]"

definition truncated_text :: string where
  \<open>truncated_text = ''{"questions": [{"question": "2 + 2?", "options": ["A) 3", ''\<close>

definition sample_loads :: decoder where
  \<open>sample_loads s =
     (if s = quiz_text then Inr quiz_value
      else if s = ''{"foo": 1}'' then Inr (JObj [(''foo'', JInt 1)])
      else if s = ''["Rust", "Go"]'' then Inr (JArr [JStr ''Rust'', JStr ''Go''])
      else if s = ''{"questions": [{"question": "2 + 2?", "options": ["A) 3",''
        then Inl ''Expecting value: line 1 column 58 (char 57)''
      else Inl ''text outside the table'')\<close>

text \<open>The cut-off quiz as a response: the opening fence, and nothing after the cut.\<close>

definition truncated_reply :: string where
  "truncated_reply = ''```json'' @ [CHR 0x0A] @ truncated_text"

text \<open>
  A backend that lists three models, two of them able to generate content, and answers
  every prompt with the fenced quiz; its state counts the calls that reached it. A
  second backend lists the same models and fails every generation.
\<close>

definition sample_listing :: "(string \<times> string list) list" where
  "sample_listing =
     [(''models/gemini-pro'', [''generateContent'', ''countTokens'']),
      (''models/embedding-001'', [''embedContent'']),
      (''models/gemini-1.5-flash'', [''generateContent''])]"

definition sample_backend :: "nat backend" where
  "sample_backend =
     \<lparr> configure = (\<lambda>k b. (None, b)),
       list_models = (\<lambda>b. (Inr sample_listing, Suc b)),
       generate_content = (\<lambda>m t b. (Inr (fence_json quiz_text), Suc b)) \<rparr>"

text \<open>A backend that lists the same models and answers every prompt with a given text.\<close>

definition replying_backend :: "string \<Rightarrow> nat backend" where
  "replying_backend response_text =
     \<lparr> configure = (\<lambda>k b. (None, b)),
       list_models = (\<lambda>b. (Inr sample_listing, Suc b)),
       generate_content = (\<lambda>m t b. (Inr response_text, Suc b)) \<rparr>"

definition failing_backend :: "nat backend" where
  "failing_backend =
     \<lparr> configure = (\<lambda>k b. (None, b)),
       list_models = (\<lambda>b. (Inr sample_listing, Suc b)),
       generate_content = (\<lambda>m t b. (Inl ''429 Resource has been exhausted'', Suc b)) \<rparr>"

text \<open>The initial session with a key saved, and the same with the quota used up at 100.\<close>

definition sample_world :: "nat world" where
  "sample_world = (initial_world 0)\<lparr>api_key := Some ''key''\<rparr>"

definition exhausted_world :: "nat world" where
  "exhausted_world = sample_world\<lparr>last_request_time := 100, request_count := 10\<rparr>"

text \<open>Three questions whose \<^verbatim>\<open>correct\<close> fields are \<^verbatim>\<open>A\<close>, \<^verbatim>\<open>a\<close> and \<^verbatim>\<open>A\<close>.\<close>

definition sample_questions :: "question list" where
  "sample_questions =
     [\<lparr> q_question = ''Q1'', q_options = [''A) w'', ''B) x'', ''C) y'', ''D) z''],
        q_correct = ''A'', q_explanation = ''E1'' \<rparr>,
      \<lparr> q_question = ''Q2'', q_options = [''A) w'', ''B) x'', ''C) y'', ''D) z''],
        q_correct = ''a'', q_explanation = ''E2'' \<rparr>,
      \<lparr> q_question = ''Q3'', q_options = [''A) w'', ''B) x'', ''C) y'', ''D) z''],
        q_correct = ''A'', q_explanation = ''E3'' \<rparr>]"

text \<open>A user who selects the first option of every question.\<close>

definition first_option :: "nat \<Rightarrow> string list \<Rightarrow> string option" where
  "first_option idx opts = (case opts of [] \<Rightarrow> None | x # xs \<Rightarrow> Some x)"

text \<open>The answers stored for that user, and two attempts to record.\<close>

definition sample_answers :: "nat \<rightharpoonup> string" where
  "sample_answers = [0 \<mapsto> ''A'', 1 \<mapsto> ''A'', 2 \<mapsto> ''A'']"

definition sample_attempts :: "attempt list" where
  "sample_attempts =
     [\<lparr> at_topic = ''Sums'', at_score = 200 / 3, at_date = ''2026-01-01 10:00'' \<rparr>,
      \<lparr> at_topic = ''Sets'', at_score = 100, at_date = ''2026-01-02 11:30'' \<rparr>]"

section \<open>Rate limiter: properties\<close>

lemma log_fields [simp]:
  "request_count (log es w) = request_count w"
  "last_request_time (log es w) = last_request_time w"
  "api_key (log es w) = api_key w"
  "working_model (log es w) = working_model w"
  "bstate (log es w) = bstate w"
  "trace (log es w) = trace w @ es"
  by (simp_all add: log_def)

text \<open>The three branches of one check.\<close>

lemma rate_limit_check_reset:
  assumes "t - last_request_time w > 60"
  shows "fst (rate_limit_check t w) = True"
    and "request_count (snd (rate_limit_check t w)) = 1"
    and "last_request_time (snd (rate_limit_check t w)) = t"
  using assms by (simp_all add: rate_limit_check_def Let_def)

lemma rate_limit_check_allow:
  assumes "t - last_request_time w \<le> 60" and "request_count w < 10"
  shows "fst (rate_limit_check t w) = True"
    and "request_count (snd (rate_limit_check t w)) = request_count w + 1"
    and "last_request_time (snd (rate_limit_check t w)) = last_request_time w"
  using assms by (simp_all add: rate_limit_check_def Let_def)

lemma rate_limit_check_deny:
  assumes "t - last_request_time w < 60" and "request_count w \<ge> 10"
  shows "fst (rate_limit_check t w) = False"
    and "request_count (snd (rate_limit_check t w)) = request_count w"
    and "last_request_time (snd (rate_limit_check t w)) = last_request_time w"
    and "trace (snd (rate_limit_check t w)) =
           trace w @ [UiWarning (py_int (60 - (t - last_request_time w))), Permit False]"
  using assms by (simp_all add: rate_limit_check_def Let_def)

lemma rate_limit_check_boundary:
  assumes "t - last_request_time w = 60" and "request_count w \<ge> 10"
  shows "fst (rate_limit_check t w) = True"
    and "request_count (snd (rate_limit_check t w)) = request_count w + 1"
    and "last_request_time (snd (rate_limit_check t w)) = last_request_time w"
  using assms by (simp_all add: rate_limit_check_def Let_def)

text \<open>The window is reset exactly when more than 60 seconds have passed.\<close>

lemma rate_limit_check_reset_iff:
  "(last_request_time (snd (rate_limit_check t w)) = t \<and> t \<noteq> last_request_time w)
     = (t - last_request_time w > 60)"
  by (auto simp add: rate_limit_check_def Let_def)

text \<open>
  Calls below the quota in a window that is not reset: all are permitted and each one
  counts.
\<close>

lemma permit_calls_below_quota:
  assumes "list_all (\<lambda>t. t - last_request_time w \<le> 60) ts"
    and "request_count w + int (length ts) \<le> 10"
  shows "fst (permit_calls ts w) = replicate (length ts) True
       \<and> request_count (snd (permit_calls ts w)) = request_count w + int (length ts)
       \<and> last_request_time (snd (permit_calls ts w)) = last_request_time w"
  using assms
proof (induction ts arbitrary: w)
  case Nil
  then show ?case by simp
next
  case (Cons t ts)
  let ?w1 = "snd (rate_limit_check t w)"
  have el: "t - last_request_time w \<le> 60" and lt: "request_count w < 10"
    using Cons.prems by simp_all
  have ok: "fst (rate_limit_check t w) = True"
    and cnt: "request_count ?w1 = request_count w + 1"
    and lst: "last_request_time ?w1 = last_request_time w"
    using rate_limit_check_allow [OF el lt] by simp_all
  have p1: "list_all (\<lambda>t. t - last_request_time ?w1 \<le> 60) ts"
    using Cons.prems lst by simp
  have p2: "request_count ?w1 + int (length ts) \<le> 10"
    using Cons.prems cnt by simp
  show ?case
    using Cons.IH [OF p1 p2] ok cnt lst by (simp add: split_beta)
qed

text \<open>
  The scenario of the limiter away from the boundary: ten calls in a fresh window are
  permitted, an eleventh made less than 60 seconds after the window opened is denied and
  shown the whole seconds left, and a later call made more than 60 seconds after the
  window opened is permitted and leaves the counter at 1.
\<close>

lemma rate_limiter_scenario:
  fixes w :: "'b world"
  assumes ten: "length ts = 10"
    and win: "list_all (\<lambda>t. t - t0 \<le> 60) ts"
    and t11: "t11 - t0 < 60"
    and t12: "t12 - t0 > 60"
  defines "w10 \<equiv> snd (permit_calls ts (fresh_window t0 w))"
  defines "w11 \<equiv> snd (rate_limit_check t11 w10)"
  shows "fst (permit_calls ts (fresh_window t0 w)) = replicate 10 True"
    and "fst (rate_limit_check t11 w10) = False"
    and "trace w11 = trace w10 @ [UiWarning (py_int (60 - (t11 - t0))), Permit False]"
    and "fst (rate_limit_check t12 w11) = True"
    and "request_count (snd (rate_limit_check t12 w11)) = 1"
proof -
  let ?f = "fresh_window t0 w"
  have f: "last_request_time ?f = t0" "request_count ?f = 0"
    by (simp_all add: fresh_window_def)
  have a: "list_all (\<lambda>t. t - last_request_time ?f \<le> 60) ts"
    using win f by simp
  have b: "request_count ?f + int (length ts) \<le> 10"
    using ten f by simp
  note r = permit_calls_below_quota [OF a b]
  show "fst (permit_calls ts ?f) = replicate 10 True"
    using r ten by simp
  have c10: "request_count w10 = 10" and l10: "last_request_time w10 = t0"
    using r ten f by (simp_all add: w10_def)
  have d1: "t11 - last_request_time w10 < 60" using t11 l10 by simp
  have d2: "request_count w10 \<ge> 10" using c10 by simp
  note d = rate_limit_check_deny [OF d1 d2]
  show "fst (rate_limit_check t11 w10) = False" by (rule d(1))
  show "trace w11 = trace w10 @ [UiWarning (py_int (60 - (t11 - t0))), Permit False]"
    using d(4) l10 by (simp add: w11_def)
  have l11: "last_request_time w11 = t0" using d(3) l10 by (simp add: w11_def)
  have e: "t12 - last_request_time w11 > 60" using t12 l11 by simp
  show "fst (rate_limit_check t12 w11) = True" by (rule rate_limit_check_reset(1) [OF e])
  show "request_count (snd (rate_limit_check t12 w11)) = 1"
    by (rule rate_limit_check_reset(2) [OF e])
qed

text \<open>
  The counter stays within the quota over any sequence of calls none of which is made
  exactly 60 seconds after the start of the window it finds.
\<close>

lemma rate_limit_check_quota:
  assumes "request_count w \<le> 10" and "t - last_request_time w \<noteq> 60"
  shows "request_count (snd (rate_limit_check t w)) \<le> 10"
  using assms by (auto simp add: rate_limit_check_def Let_def)

lemma permit_calls_quota:
  assumes "request_count w \<le> 10" and "off_boundary ts w"
  shows "request_count (snd (permit_calls ts w)) \<le> 10"
  using assms
proof (induction ts arbitrary: w)
  case Nil
  then show ?case by simp
next
  case (Cons t ts)
  have "request_count (snd (rate_limit_check t w)) \<le> 10"
    using Cons.prems by (simp add: rate_limit_check_quota)
  moreover have "off_boundary ts (snd (rate_limit_check t w))"
    using Cons.prems by simp
  ultimately show ?case
    using Cons.IH by (simp add: split_beta)
qed

text \<open>
  C2. Ten calls in a fresh window followed by an eleventh in the same window: the
  eleventh is to be denied. Evaluated at a window opened at clock reading 100, ten calls
  at 100 and the eleventh at 160, which is 60 seconds after the window opened (not more,
  so the window is not reset): all eleven calls are permitted.
\<close>

theorem rate_limit_eleventh_permitted_at_60s:
  "fst (permit_calls (replicate 10 100 @ [160]) (fresh_window 100 (initial_world ())))
     = replicate 11 True"
  by (simp add: numeral_eq_Suc rate_limit_check_def fresh_window_def initial_world_def
      Let_def log_def)

text \<open>
  C3. The counter is to stay at most 10 while the window is not reset. Evaluated on the
  session's initial state with ten calls at clock reading 100 and an eleventh at 160: the
  window opened at 100 is still the current one, 160 lies 60 seconds after its start,
  and the counter is 11.
\<close>

theorem request_count_exceeds_quota_at_60s:
  "request_count (snd (permit_calls (replicate 10 100 @ [160]) (initial_world ()))) = 11
   \<and> last_request_time (snd (permit_calls (replicate 10 100 @ [160]) (initial_world ()))) = 100
   \<and> 160 - last_request_time (snd (permit_calls (replicate 10 100 @ [160]) (initial_world ()))) \<le> 60"
  by (simp add: numeral_eq_Suc rate_limit_check_def initial_world_def Let_def log_def)

section \<open>Response cleaning: properties\<close>

lemma dropWhile_all_append:
  "list_all P xs \<Longrightarrow> dropWhile P (xs @ ys) = dropWhile P ys"
  by (induction xs) simp_all

text \<open>Stripping removes a padding of white space around a text that has none at its ends.\<close>

lemma strip_pad:
  assumes a: "list_all py_isspace a" and b: "list_all py_isspace b"
    and t: "t \<noteq> []" and h: "\<not> py_isspace (hd t)" and l: "\<not> py_isspace (last t)"
  shows "strip (a @ t @ b) = t"
proof -
  have 1: "dropWhile py_isspace (a @ t @ b) = t @ b"
  proof -
    have "dropWhile py_isspace (a @ t @ b) = dropWhile py_isspace (t @ b)"
      using a by (rule dropWhile_all_append)
    also have "\<dots> = t @ b"
      using t h by (cases t) simp_all
    finally show ?thesis .
  qed
  have rb: "list_all py_isspace (rev b)"
    using b by (simp add: list_all_iff)
  have 2: "dropWhile py_isspace (rev b @ rev t) = rev t"
  proof -
    have "dropWhile py_isspace (rev b @ rev t) = dropWhile py_isspace (rev t)"
      using rb by (rule dropWhile_all_append)
    also have "\<dots> = rev t"
      using t l by (cases "rev t") (simp_all add: last_rev [symmetric] hd_rev)
    finally show ?thesis .
  qed
  show ?thesis by (simp add: strip_def 1 2)
qed

lemma strip_id:
  assumes "t \<noteq> []" "\<not> py_isspace (hd t)" "\<not> py_isspace (last t)"
  shows "strip t = t"
  using strip_pad [of "[]" "[]" t] assms by simp

lemma py_isspace_chars [simp]:
  "\<not> py_isspace (CHR ''{'')" "\<not> py_isspace (CHR ''}'')" "\<not> py_isspace (CHR 0x60)"
  "py_isspace (CHR 0x0A)"
  by (simp_all add: py_isspace_def)

lemma endswith_last:
  assumes "endswith s (p @ [c])"
  shows "last s = c"
proof -
  have "drop (length s - length (p @ [c])) s = p @ [c]"
    using assms unfolding endswith_def by blast
  then have "s = take (length s - length (p @ [c])) s @ p @ [c]"
    by (metis append_take_drop_id)
  then have "last s = last (take (length s - length (p @ [c])) s @ p @ [c])"
    by simp
  then show ?thesis by (simp del: length_append)
qed

text \<open>A text that begins with an opening and ends with a closing brace is left as it is.\<close>

lemma clean_response_plain:
  assumes "s \<noteq> []" "hd s = CHR ''{''" "last s = CHR ''}''"
  shows "clean_response s = s"
proof -
  have s: "strip s = s" using assms by (simp add: strip_id)
  have a: "\<not> startswith s ''```json''"
    using assms by (cases s) (auto simp add: startswith_def)
  have b: "\<not> startswith s ''```''"
    using assms by (cases s) (auto simp add: startswith_def)
  have c: "\<not> endswith s ''```''"
    using endswith_last [of s "[CHR 0x60, CHR 0x60]" "CHR 0x60"] assms by auto
  show ?thesis by (simp add: clean_response_def Let_def s a b c)
qed

text \<open>The fence around such a text is removed.\<close>

lemma clean_response_fenced:
  assumes "s \<noteq> []" "hd s = CHR ''{''" "last s = CHR ''}''"
  shows "clean_response (fence_json s) = s"
proof -
  let ?f = "fence_json s"
  have 1: "strip ?f = ?f"
    by (rule strip_id) (simp_all add: fence_json_def)
  have 2: "startswith ?f ''```json''"
    by (simp add: startswith_def fence_json_def)
  let ?g = "CHR 0x0A # s @ [CHR 0x0A] @ ''```''"
  have 3: "drop 7 ?f = ?g"
    by (simp add: fence_json_def)
  have 4: "\<not> startswith ?g ''```''"
    by (simp add: startswith_def)
  have 5: "endswith ?g ''```''"
    by (simp add: endswith_def)
  have 6: "take (length ?g - 3) ?g = CHR 0x0A # s @ [CHR 0x0A]"
    by simp
  have 7: "strip (CHR 0x0A # s @ [CHR 0x0A]) = s"
    using strip_pad [of "[CHR 0x0A]" "[CHR 0x0A]" s] assms by simp
  show ?thesis
    unfolding clean_response_def Let_def 1 using 2 3 4 5 6 7 by (simp del: append.simps)
qed

lemma quiz_text_shape:
  "quiz_text \<noteq> []" "hd quiz_text = CHR ''{''" "last quiz_text = CHR ''}''"
  by (simp_all add: quiz_text_def)

lemma clean_response_foo: \<open>clean_response ''{"foo": 1}'' = ''{"foo": 1}''\<close>
  by (rule clean_response_plain) simp_all

lemma clean_response_truncated:
  \<open>clean_response truncated_text
     = ''{"questions": [{"question": "2 + 2?", "options": ["A) 3",''\<close>
  by (simp add: clean_response_def Let_def strip_def startswith_def endswith_def
      truncated_text_def py_isspace_def)

text \<open>
  C4. Let \<open>s\<close> be the serialisation of a JSON object, so a text from an opening to a
  closing brace, that the decoder decodes to \<open>v\<close>. Parsing \<open>s\<close> wrapped in a
  \<^verbatim>\<open>```json\<close> fence yields \<open>v\<close>, and so does parsing \<open>s\<close> without a fence.
\<close>

theorem parse_response_roundtrip:
  assumes "loads s = Inr v" and "s \<noteq> []" and "hd s = CHR ''{''" and "last s = CHR ''}''"
  shows "parse_response loads (fence_json s) = Inr v \<and> parse_response loads s = Inr v"
  using assms by (simp add: parse_response_def clean_response_fenced clean_response_plain)

theorem parse_response_roundtrip_witness:
  "sample_loads quiz_text = Inr quiz_value
   \<and> parse_response sample_loads (fence_json quiz_text) = Inr quiz_value
   \<and> parse_response sample_loads quiz_text = Inr quiz_value"
proof -
  have 1: "sample_loads quiz_text = Inr quiz_value" by (simp add: sample_loads_def)
  show ?thesis
    using parse_response_roundtrip [of sample_loads quiz_text quiz_value] 1 quiz_text_shape
    by simp
qed

text \<open>
  C5, as the claim has it: a decoded value without the key \<^verbatim>\<open>questions\<close> is to make
  the parsing of a quiz fail. The text \<^verbatim>\<open>{"foo": 1}\<close> decodes to a dictionary without
  that key, and the parsing of the quiz returns the dictionary.
\<close>

theorem quiz_without_questions_is_returned:
  \<open>sample_loads (clean_response ''{"foo": 1}'') = Inr (JObj [(''foo'', JInt 1)])
   \<and> has_key ''questions'' (JObj [(''foo'', JInt 1)]) = False
   \<and> quiz_from_text sample_loads ''{"foo": 1}'' = Inr (JObj [(''foo'', JInt 1)])\<close>
  by (simp add: clean_response_foo sample_loads_def quiz_text_def quiz_from_text_def
      parse_response_def)

text \<open>
  What the two parsings return: the decoder's exception when it raises on the cleaned
  text; otherwise the decoded value for a quiz, whatever its keys, and for a course the
  value with the three stamps when it is a dictionary, whatever its other keys, and the
  exception of the item assignment when it is not.
\<close>

lemma from_text_results:
  "(loads (clean_response raw) = Inl e \<longrightarrow>
      quiz_from_text loads raw = Inl e
      \<and> course_from_text loads today topic level raw = Inl e)
   \<and> (loads (clean_response raw) = Inr v \<longrightarrow> quiz_from_text loads raw = Inr v)
   \<and> (loads (clean_response raw) = Inr (JObj kvs) \<longrightarrow>
        course_from_text loads today topic level raw =
          Inr (JObj (AList.update ''level'' (JStr level)
                 (AList.update ''user_topic'' (JStr topic)
                   (AList.update ''created_date'' (JStr today) kvs)))))
   \<and> (loads (clean_response raw) = Inr v \<and> (\<forall>kvs. v \<noteq> JObj kvs) \<longrightarrow>
        course_from_text loads today topic level raw = Inl (setitem_message v))"
  by (cases v) (simp_all add: quiz_from_text_def course_from_text_def parse_response_def)

lemma clean_response_truncated_reply:
  \<open>clean_response truncated_reply
     = ''{"questions": [{"question": "2 + 2?", "options": ["A) 3",''\<close>
  by (simp add: clean_response_def Let_def strip_def startswith_def endswith_def
      truncated_reply_def truncated_text_def py_isspace_def)

section \<open>Progress store: properties\<close>

lemma record_quiz_attempt_present:
  assumes "ud u = Some stats"
  shows "record_quiz_attempt u t s d ud =
           Inr (ud(u \<mapsto> stats\<lparr> quizzes_taken := quizzes_taken stats + 1,
                                total_score := total_score stats + s,
                                quiz_history := quiz_history stats @
                                  [\<lparr> at_topic = t, at_score = s, at_date = d \<rparr>] \<rparr>))"
  using assms by (simp add: record_quiz_attempt_def)

text \<open>
  Recording a sequence of attempts for a user with an entry succeeds, adds the scores to
  the total, their number to the count, and the attempts, in order, to the history.
\<close>

lemma record_attempts_totals:
  assumes "ud u = Some stats"
  shows "\<exists>ud' stats'. record_attempts u atts ud = Inr ud' \<and> ud' u = Some stats'
           \<and> total_score stats' = total_score stats + sum_list (map at_score atts)
           \<and> quizzes_taken stats' = quizzes_taken stats + int (length atts)
           \<and> quiz_history stats' = quiz_history stats @ atts"
  using assms
proof (induction atts arbitrary: ud stats)
  case Nil
  then show ?case by simp
next
  case (Cons a atts)
  let ?s1 = "stats\<lparr> quizzes_taken := quizzes_taken stats + 1,
                      total_score := total_score stats + at_score a,
                      quiz_history := quiz_history stats @
                        [\<lparr> at_topic = at_topic a, at_score = at_score a,
                           at_date = at_date a \<rparr>] \<rparr>"
  let ?ud1 = "ud(u \<mapsto> ?s1)"
  have step: "record_quiz_attempt u (at_topic a) (at_score a) (at_date a) ud = Inr ?ud1"
    using Cons.prems by (simp add: record_quiz_attempt_def)
  have "?ud1 u = Some ?s1" by simp
  with Cons.IH [of ?ud1 ?s1] obtain ud' stats' where
    r: "record_attempts u atts ?ud1 = Inr ud'" "ud' u = Some stats'"
       "total_score stats' = total_score ?s1 + sum_list (map at_score atts)"
       "quizzes_taken stats' = quizzes_taken ?s1 + int (length atts)"
       "quiz_history stats' = quiz_history ?s1 @ atts"
    by blast
  have "record_attempts u (a # atts) ud = Inr ud'"
    using step r(1) by simp
  moreover have "total_score stats' = total_score stats + sum_list (map at_score (a # atts))"
    using r(3) by simp
  moreover have "quizzes_taken stats' = quizzes_taken stats + int (length (a # atts))"
    using r(4) by simp
  moreover have "quiz_history stats' = quiz_history stats @ a # atts"
    using r(5) by simp
  ultimately show ?case using r(2) by blast
qed

lemma initialize_user_data_fresh:
  assumes "ud u = None"
  shows "initialize_user_data u ud u = Some fresh_user_stats"
  using assms by (simp add: initialize_user_data_def dom_def)

text \<open>
  C7. For a user without an entry, initialised by \<^verbatim>\<open>initialize_user_data\<close>, every
  sequence of recordings succeeds and leaves the total score at the sum of the scores,
  the number of quizzes taken at the number of recordings, and the history equal to the
  recorded attempts in their order.
\<close>

theorem progress_store_totals:
  assumes "ud u = None"
  shows "\<exists>ud' stats. record_attempts u atts (initialize_user_data u ud) = Inr ud'
           \<and> ud' u = Some stats
           \<and> total_score stats = sum_list (map at_score atts)
           \<and> quizzes_taken stats = int (length atts)
           \<and> quiz_history stats = atts"
  using record_attempts_totals [of "initialize_user_data u ud" u fresh_user_stats atts]
    initialize_user_data_fresh [of ud u] assms
  by (simp add: fresh_user_stats_def)

theorem progress_store_totals_witness:
  "(Map.empty :: user_data) ''ann'' = None
   \<and> (\<exists>ud' stats.
         record_attempts ''ann'' sample_attempts (initialize_user_data ''ann'' Map.empty) = Inr ud'
         \<and> ud' ''ann'' = Some stats
         \<and> total_score stats = 500 / 3
         \<and> quizzes_taken stats = 2
         \<and> quiz_history stats = sample_attempts)"
  using progress_store_totals [of Map.empty "''ann''" sample_attempts]
  by (simp add: sample_attempts_def)

section \<open>Quiz submission: properties\<close>

text \<open>The counting loop counts the indices whose stored answer passes the test.\<close>

lemma count_correct_filter:
  "count_correct qs idx qa c =
     c + length (filter (\<lambda>i. is_correct qa (idx + i) (qs ! i)) [0..<length qs])"
proof (induction qs arbitrary: idx c)
  case Nil
  show ?case by simp
next
  case (Cons q qs)
  have upt: "[0..<length (q # qs)] = 0 # map Suc [0..<length qs]"
    by (simp add: upt_conv_Cons map_Suc_upt del: upt_Suc)
  have "length (filter (\<lambda>i. is_correct qa (idx + i) ((q # qs) ! i)) [0..<length (q # qs)])
          = (if is_correct qa idx q then 1 else 0)
            + length (filter (\<lambda>i. is_correct qa (Suc idx + i) (qs ! i)) [0..<length qs])"
    unfolding upt by (simp add: filter_map comp_def)
  then show ?case
    using Cons.IH [of "Suc idx"] by simp
qed

lemma count_correct_matches:
  "count_correct questions 0 quiz_answers 0 = matches questions quiz_answers"
  by (simp add: count_correct_filter matches_def)

lemma matches_le: "matches questions quiz_answers \<le> length questions"
  unfolding matches_def using length_filter_le [of _ "[0..<length questions]"] by simp

text \<open>The printed number is within half a tenth of the score.\<close>

lemma round_half_even_near: "\<bar>real_of_int (round_half_even x) - x\<bar> \<le> 1 / 2"
proof -
  have "real_of_int \<lfloor>x\<rfloor> \<le> x" and "x < real_of_int \<lfloor>x\<rfloor> + 1"
    by linarith+
  then show ?thesis
    by (auto simp add: round_half_even_def Let_def)
qed

lemma format_1f_near: "\<bar>real_of_int (format_1f x) / 10 - x\<bar> \<le> 1 / 20"
  using round_half_even_near [of "x * 10"] by (simp add: format_1f_def field_simps)

text \<open>
  C9. For a quiz with at least one question and a user with an entry, the submission
  succeeds; the score is the number of matching answers divided by the number of
  questions, times 100; it lies between 0 and 100; the number printed with one decimal
  is within half a tenth of it; and the user's entry gains exactly one attempt, with that
  score and the topic of the quiz, at the end of the history.
\<close>

theorem submit_quiz_score:
  assumes "questions \<noteq> []" and "ud current_user = Some stats"
  shows "(let score = real (matches questions quiz_answers) / real (length questions) * 100
          in submit_quiz questions quiz_answers current_user quiz_topic date ud =
               Inr (score,
                    ud(current_user \<mapsto>
                         stats\<lparr> quizzes_taken := quizzes_taken stats + 1,
                                total_score := total_score stats + score,
                                quiz_history := quiz_history stats @
                                  [\<lparr> at_topic = quiz_topic, at_score = score,
                                     at_date = date \<rparr>] \<rparr>))
             \<and> 0 \<le> score \<and> score \<le> 100
             \<and> \<bar>real_of_int (format_1f score) / 10 - score\<bar> \<le> 1 / 20)"
proof -
  let ?k = "matches questions quiz_answers" and ?n = "length questions"
  let ?score = "real ?k / real ?n * 100"
  have n: "0 < ?n" using assms(1) by simp
  have "real ?k \<le> real ?n" using matches_le [of questions quiz_answers] by simp
  then have hi: "?score \<le> 100" using n by (simp add: field_simps)
  have lo: "0 \<le> ?score" by simp
  have sub: "submit_quiz questions quiz_answers current_user quiz_topic date ud =
               Inr (?score,
                    ud(current_user \<mapsto>
                         stats\<lparr> quizzes_taken := quizzes_taken stats + 1,
                                total_score := total_score stats + ?score,
                                quiz_history := quiz_history stats @
                                  [\<lparr> at_topic = quiz_topic, at_score = ?score,
                                     at_date = date \<rparr>] \<rparr>))"
    using assms
    by (simp add: submit_quiz_def Let_def count_correct_matches record_quiz_attempt_def)
  show ?thesis
    unfolding Let_def using sub lo hi format_1f_near [of ?score] by blast
qed

lemma matches_sample: "matches sample_questions sample_answers = 2"
  by (simp add: matches_def sample_questions_def sample_answers_def is_correct_def)

lemma format_1f_two_thirds: "format_1f (200 / 3) = 667"
  by (simp add: format_1f_def round_half_even_def Let_def)

theorem submit_quiz_score_witness:
  "sample_questions \<noteq> []
   \<and> initialize_user_data ''ann'' Map.empty ''ann'' = Some fresh_user_stats
   \<and> submit_quiz sample_questions sample_answers ''ann'' ''Sums'' ''2026-01-01 10:00''
        (initialize_user_data ''ann'' Map.empty)
       = Inr (200 / 3,
              (initialize_user_data ''ann'' Map.empty)(''ann'' \<mapsto>
                 fresh_user_stats\<lparr> quizzes_taken := 1, total_score := 200 / 3,
                   quiz_history := [\<lparr> at_topic = ''Sums'', at_score = 200 / 3,
                                      at_date = ''2026-01-01 10:00'' \<rparr>] \<rparr>))
   \<and> format_1f (200 / 3) = 667"
proof -
  have q: "sample_questions \<noteq> []" by (simp add: sample_questions_def)
  have u: "initialize_user_data ''ann'' Map.empty ''ann'' = Some fresh_user_stats"
    by (simp add: initialize_user_data_fresh)
  have n: "length sample_questions = 3" by (simp add: sample_questions_def)
  show ?thesis
    using submit_quiz_score [of sample_questions "initialize_user_data ''ann'' Map.empty"
        "''ann''" fresh_user_stats sample_answers "''Sums''" "''2026-01-01 10:00''"]
      q u format_1f_two_thirds
    by (simp add: Let_def matches_sample n fresh_user_stats_def)
qed

text \<open>
  What the rendering stores: for every question the first character of the selection
  that the widget returned, under the index of the question.
\<close>

lemma render_questions_stores:
  assumes "render_questions radio qs i0 qa0 = Inr qa"
  shows "(\<forall>i<length qs. \<exists>c cs. radio (i0 + i) (q_options (qs ! i)) = Some (c # cs)
                                  \<and> qa (i0 + i) = Some [c])
         \<and> (\<forall>j<i0. qa j = qa0 j)"
  using assms
proof (induction qs arbitrary: i0 qa0)
  case Nil
  then show ?case by simp
next
  case (Cons q qs)
  from Cons.prems obtain c cs where
    sel: "radio i0 (q_options q) = Some (c # cs)"
    and rest: "render_questions radio qs (Suc i0) (qa0(i0 \<mapsto> [c])) = Inr qa"
    by (auto split: option.splits list.splits)
  from Cons.IH [of "Suc i0" "qa0(i0 \<mapsto> [c])"] rest have
    ih1: "\<forall>i<length qs. \<exists>c cs. radio (Suc i0 + i) (q_options (qs ! i)) = Some (c # cs)
                                  \<and> qa (Suc i0 + i) = Some [c]"
    and ih2: "\<forall>j<Suc i0. qa j = (qa0(i0 \<mapsto> [c])) j"
    by blast+
  have here: "qa i0 = Some [c]" using ih2 by simp
  have "\<exists>c cs. radio (i0 + i) (q_options ((q # qs) ! i)) = Some (c # cs)
                  \<and> qa (i0 + i) = Some [c]" if "i < length (q # qs)" for i
  proof (cases i)
    case 0
    then show ?thesis using sel here by simp
  next
    case (Suc k)
    then have "k < length qs" using that by simp
    then show ?thesis using ih1 Suc by simp
  qed
  moreover have "qa j = qa0 j" if "j < i0" for j
    using ih2 that by simp
  ultimately show ?case by blast
qed

text \<open>
  C10. After the rendering of a quiz, the answer to a question passes the test of the
  submission if and only if the one-character string made of the first character of the
  selected option equals the \<^verbatim>\<open>correct\<close> field, character for character; and the
  submission counts exactly the answers that pass the test.
\<close>

theorem answer_correct_iff_first_char:
  assumes "render_questions radio questions 0 Map.empty = Inr quiz_answers"
    and "idx < length questions"
  shows "(\<exists>answer. radio idx (q_options (questions ! idx)) = Some answer \<and> answer \<noteq> []
            \<and> is_correct quiz_answers idx (questions ! idx)
                = ([hd answer] = q_correct (questions ! idx)))
         \<and> count_correct questions 0 quiz_answers 0 = matches questions quiz_answers"
proof -
  from render_questions_stores [of radio questions 0 Map.empty quiz_answers] assms
  obtain c cs where
    "radio idx (q_options (questions ! idx)) = Some (c # cs)" "quiz_answers idx = Some [c]"
    by fastforce
  then have "radio idx (q_options (questions ! idx)) = Some (c # cs) \<and> c # cs \<noteq> []
               \<and> is_correct quiz_answers idx (questions ! idx)
                   = ([hd (c # cs)] = q_correct (questions ! idx))"
    by (auto simp add: is_correct_def)
  then show ?thesis
    using count_correct_matches by blast
qed

lemma render_sample:
  "render_questions first_option sample_questions 0 Map.empty = Inr sample_answers"
  by (simp add: sample_questions_def first_option_def sample_answers_def numeral_2_eq_2)

theorem answer_correct_iff_first_char_witness:
  "render_questions first_option sample_questions 0 Map.empty = Inr sample_answers
   \<and> first_option 1 (q_options (sample_questions ! 1)) = Some ''A) w''
   \<and> q_correct (sample_questions ! 1) = ''a''
   \<and> is_correct sample_answers 1 (sample_questions ! 1) = False
   \<and> first_option 0 (q_options (sample_questions ! 0)) = Some ''A) w''
   \<and> q_correct (sample_questions ! 0) = ''A''
   \<and> is_correct sample_answers 0 (sample_questions ! 0) = True
   \<and> count_correct sample_questions 0 sample_answers 0 = 2"
proof -
  have l: "(1::nat) < length sample_questions" "(0::nat) < length sample_questions"
    by (simp_all add: sample_questions_def)
  have o: "first_option 1 (q_options (sample_questions ! 1)) = Some ''A) w''"
    "first_option 0 (q_options (sample_questions ! 0)) = Some ''A) w''"
    "q_correct (sample_questions ! 1) = ''a''" "q_correct (sample_questions ! 0) = ''A''"
    by (simp_all add: sample_questions_def first_option_def)
  show ?thesis
    using answer_correct_iff_first_char [of first_option sample_questions sample_answers 1]
      answer_correct_iff_first_char [of first_option sample_questions sample_answers 0]
      render_sample l o matches_sample
    by simp
qed

section \<open>Model resolution: properties\<close>

lemma get_working_model_cached:
  assumes "truthy (working_model w)"
  shows "get_working_model be w = (working_model w, w)"
  using assms by (simp add: get_working_model_def)

lemma get_working_model_listing_failed:
  assumes "\<not> truthy (working_model w)"
    and "fst (fst (test_api_key_and_list_models be w)) = None"
  shows "fst (get_working_model be w) = None"
  using assms by (simp add: get_working_model_def split_beta split: option.splits)

lemma sample_catalog:
  "fst (test_api_key_and_list_models sample_backend sample_world)
     = (Some [''gemini-pro'', ''gemini-1.5-flash''], None)"
  by (simp add: test_api_key_and_list_models_def sample_backend_def sample_world_def
      initial_world_def sample_listing_def startswith_def)

text \<open>
  C6. With no model remembered and the catalog that the listing returned: if a preferred
  name is in the catalog and no earlier preferred name is, that name is the result (the
  condition looks only at which names the catalog holds, not at their order); if the
  catalog is not empty and holds no preferred name, the result is its first entry; if the
  catalog is empty, there is no result.
\<close>

theorem get_working_model_policy:
  assumes "\<not> truthy (working_model w)"
    and "test_api_key_and_list_models be w = ((Some catalog, err), w1)"
  shows "(\<forall>i<length preferred.
            preferred ! i \<in> set catalog \<and> (\<forall>j<i. preferred ! j \<notin> set catalog)
            \<longrightarrow> fst (get_working_model be w) = Some (preferred ! i))
         \<and> (catalog \<noteq> [] \<and> set preferred \<inter> set catalog = {}
              \<longrightarrow> fst (get_working_model be w) = Some (hd catalog))
         \<and> (catalog = [] \<longrightarrow> fst (get_working_model be w) = None)"
proof (cases catalog)
  case Nil
  then show ?thesis using assms by (simp add: get_working_model_def)
next
  case (Cons m ms)
  let ?P = "\<lambda>pref. pref \<in> set catalog"
  have res: "fst (get_working_model be w) =
               (case find ?P preferred of Some pref \<Rightarrow> Some pref | None \<Rightarrow> Some m)"
    using assms Cons by (simp add: get_working_model_def split: option.splits)
  have first: "fst (get_working_model be w) = Some (preferred ! i)"
    if "i < length preferred" "preferred ! i \<in> set catalog"
      "\<forall>j<i. preferred ! j \<notin> set catalog" for i
  proof -
    have "find ?P preferred = Some (preferred ! i)"
      unfolding find_Some_iff using that by blast
    then show ?thesis using res by simp
  qed
  have none: "fst (get_working_model be w) = Some (hd catalog)"
    if "set preferred \<inter> set catalog = {}"
  proof -
    have "find ?P preferred = None"
      unfolding find_None_iff using that by blast
    then show ?thesis using res Cons by simp
  qed
  show ?thesis using first none Cons by simp
qed

theorem get_working_model_policy_witness:
  "\<not> truthy (working_model sample_world)
   \<and> fst (test_api_key_and_list_models sample_backend sample_world)
       = (Some [''gemini-pro'', ''gemini-1.5-flash''], None)
   \<and> preferred ! 1 = ''gemini-1.5-flash'' \<and> preferred ! 4 = ''gemini-pro''
   \<and> fst (get_working_model sample_backend sample_world) = Some ''gemini-1.5-flash''"
proof -
  let ?cat = "[''gemini-pro'', ''gemini-1.5-flash'']"
  have a: "\<not> truthy (working_model sample_world)"
    by (simp add: truthy_def sample_world_def initial_world_def)
  have b: "test_api_key_and_list_models sample_backend sample_world
             = ((Some ?cat, None), snd (test_api_key_and_list_models sample_backend sample_world))"
    using sample_catalog by (simp add: prod_eq_iff)
  have p: "preferred ! 1 = ''gemini-1.5-flash''" "preferred ! 4 = ''gemini-pro''"
    "preferred ! 0 = ''gemini-1.5-flash-8b''" "(1::nat) < length preferred"
    by (simp_all add: preferred_def)
  have c: "preferred ! 1 \<in> set ?cat \<and> (\<forall>j<1. preferred ! j \<notin> set ?cat)"
    using p by simp
  have "fst (get_working_model sample_backend sample_world) = Some (preferred ! 1)"
    using get_working_model_policy [of sample_world sample_backend ?cat None
        "snd (test_api_key_and_list_models sample_backend sample_world)"] a b c p(4)
    by blast
  then show ?thesis using a sample_catalog p by simp
qed

section \<open>Content generation: properties\<close>

text \<open>A list of events without an outbound call passes the gate, whatever came before.\<close>

lemma gated_no_outbound:
  "list_all (\<lambda>e. \<not> is_outbound e) es \<Longrightarrow> gated p es"
  by (induction p es rule: gated.induct) simp_all

lemma gated_True: "gated True es"
  by (induction es) (simp, case_tac a, simp_all)

text \<open>After a successful rate-limit check everything passes the gate.\<close>

lemma gated_after_permit:
  "list_all (\<lambda>e. \<not> is_outbound e) es \<Longrightarrow> gated p (es @ Permit True # fs)"
  by (induction p es rule: gated.induct) (simp_all add: gated_True)

text \<open>What each step adds to the events.\<close>

lemma configure_gemini_trace:
  "\<exists>es. trace (snd (configure_gemini be w)) = trace w @ es
        \<and> list_all (\<lambda>e. \<not> is_outbound e) es"
  by (auto simp add: configure_gemini_def split: option.splits prod.splits)

lemma rate_limit_check_trace:
  "(fst (rate_limit_check t w) \<and> trace (snd (rate_limit_check t w)) = trace w @ [Permit True])
   \<or> (\<not> fst (rate_limit_check t w)
       \<and> (\<exists>n. trace (snd (rate_limit_check t w)) = trace w @ [UiWarning n, Permit False]))"
  by (simp add: rate_limit_check_def Let_def)

lemma test_api_key_and_list_models_trace:
  "\<exists>es. trace (snd (test_api_key_and_list_models be w)) = trace w @ es"
  by (auto simp add: test_api_key_and_list_models_def split: option.splits prod.splits sum.splits)

lemma get_working_model_trace:
  "\<exists>es. trace (snd (get_working_model be w)) = trace w @ es"
proof (cases "truthy (working_model w)")
  case True
  then show ?thesis by (simp add: get_working_model_def)
next
  case False
  obtain es where "trace (snd (test_api_key_and_list_models be w)) = trace w @ es"
    using test_api_key_and_list_models_trace by blast
  then show ?thesis
    using False
    by (auto simp add: get_working_model_def split: prod.splits option.splits list.splits)
qed

lemma ask_model_trace:
  "trace (snd (ask_model be m t w)) = trace w @ [Generate m t]"
  by (simp add: ask_model_def split: prod.splits)

text \<open>What \<^verbatim>\<open>generate_course\<close> and \<^verbatim>\<open>generate_quiz\<close> do after the rate-limit check.\<close>

lemma generate_course_trace:
  "\<exists>es. trace (snd (generate_course be loads now today topic level duration w)) = trace w @ es
        \<and> gated False es"
proof -
  obtain c where c: "trace (snd (configure_gemini be w)) = trace w @ c"
    "list_all (\<lambda>e. \<not> is_outbound e) c"
    using configure_gemini_trace by blast
  let ?w1 = "snd (configure_gemini be w)"
  let ?w2 = "snd (rate_limit_check now ?w1)"
  let ?w3 = "snd (get_working_model be ?w2)"
  let ?r = "generate_course be loads now today topic level duration w"
  show ?thesis
  proof (cases "fst (configure_gemini be w)")
    case False
    then have "snd ?r = ?w1"
      by (simp add: generate_course_def split_beta bool.case_eq_if)
    then show ?thesis using c gated_no_outbound by metis
  next
    case conf: True
    show ?thesis
    proof (cases "fst (rate_limit_check now ?w1)")
      case False
      then have "snd ?r = ?w2"
        using conf by (simp add: generate_course_def split_beta bool.case_eq_if)
      moreover obtain n where "trace ?w2 = trace ?w1 @ [UiWarning n, Permit False]"
        using rate_limit_check_trace [of now ?w1] False by blast
      ultimately have "trace (snd ?r) = trace w @ (c @ [UiWarning n, Permit False])"
        using c by simp
      moreover have "gated False (c @ [UiWarning n, Permit False])"
        using c(2) by (intro gated_no_outbound) simp
      ultimately show ?thesis by blast
    next
      case True
      then have t2: "trace ?w2 = trace w @ c @ [Permit True]"
        using rate_limit_check_trace [of now ?w1] c by auto
      obtain g where g: "trace ?w3 = trace ?w2 @ g"
        using get_working_model_trace by blast
      have "\<exists>h. trace (snd ?r) = trace ?w3 @ h"
        using conf True
        by (auto simp add: generate_course_def ask_model_trace split_beta bool.case_eq_if
            split: sum.splits)
      then obtain h where "trace (snd ?r) = trace ?w3 @ h" by blast
      then have "trace (snd ?r) = trace w @ (c @ Permit True # (g @ h))"
        using g t2 by simp
      moreover have "gated False (c @ Permit True # (g @ h))"
        using c(2) by (rule gated_after_permit)
      ultimately show ?thesis by blast
    qed
  qed
qed

lemma generate_quiz_trace:
  "\<exists>es. trace (snd (generate_quiz be loads now topic difficulty num_questions w)) = trace w @ es
        \<and> gated False es"
proof -
  obtain c where c: "trace (snd (configure_gemini be w)) = trace w @ c"
    "list_all (\<lambda>e. \<not> is_outbound e) c"
    using configure_gemini_trace by blast
  let ?w1 = "snd (configure_gemini be w)"
  let ?w2 = "snd (rate_limit_check now ?w1)"
  let ?w3 = "snd (get_working_model be ?w2)"
  let ?r = "generate_quiz be loads now topic difficulty num_questions w"
  show ?thesis
  proof (cases "fst (configure_gemini be w)")
    case False
    then have "snd ?r = ?w1"
      by (simp add: generate_quiz_def split_beta bool.case_eq_if)
    then show ?thesis using c gated_no_outbound by metis
  next
    case conf: True
    show ?thesis
    proof (cases "fst (rate_limit_check now ?w1)")
      case False
      then have "snd ?r = ?w2"
        using conf by (simp add: generate_quiz_def split_beta bool.case_eq_if)
      moreover obtain n where "trace ?w2 = trace ?w1 @ [UiWarning n, Permit False]"
        using rate_limit_check_trace [of now ?w1] False by blast
      ultimately have "trace (snd ?r) = trace w @ (c @ [UiWarning n, Permit False])"
        using c by simp
      moreover have "gated False (c @ [UiWarning n, Permit False])"
        using c(2) by (intro gated_no_outbound) simp
      ultimately show ?thesis by blast
    next
      case True
      then have t2: "trace ?w2 = trace w @ c @ [Permit True]"
        using rate_limit_check_trace [of now ?w1] c by auto
      obtain g where g: "trace ?w3 = trace ?w2 @ g"
        using get_working_model_trace by blast
      have "\<exists>h. trace (snd ?r) = trace ?w3 @ h"
        using conf True
        by (auto simp add: generate_quiz_def ask_model_trace split_beta bool.case_eq_if
            split: sum.splits)
      then obtain h where "trace (snd ?r) = trace ?w3 @ h" by blast
      then have "trace (snd ?r) = trace w @ (c @ Permit True # (g @ h))"
        using g t2 by simp
      moreover have "gated False (c @ Permit True # (g @ h))"
        using c(2) by (rule gated_after_permit)
      ultimately show ?thesis by blast
    qed
  qed
qed

text \<open>
  C8. \<^verbatim>\<open>get_recommendations\<close> returns a value in every case (its result has no error
  alternative). With an empty history the result is the four-item list and no outbound
  call is made. When a step fails the result is a fixed list: the four-item list when
  the configuration fails, the five-item list when no model is found, when the
  generation raises, and when the decoding raises.
\<close>

theorem get_recommendations_never_fails:
  "(let r = get_recommendations be loads user_history preferences w;
        c = configure_gemini be w;
        g = get_working_model be (snd c);
        a = ask_model be (the (fst g)) (RecommendTask user_history preferences) (snd g)
    in (user_history = [] \<longrightarrow>
          fst r = fallback_recommendations
          \<and> filter is_outbound (drop (length (trace w)) (trace (snd r))) = [])
       \<and> (\<not> fst c \<longrightarrow> fst r = fallback_recommendations)
       \<and> (fst c \<and> user_history \<noteq> [] \<and> \<not> truthy (fst g) \<longrightarrow>
            fst r = default_recommendations)
       \<and> (fst c \<and> user_history \<noteq> [] \<and> truthy (fst g) \<and> (\<exists>e. fst a = Inl e) \<longrightarrow>
            fst r = default_recommendations)
       \<and> (fst c \<and> user_history \<noteq> [] \<and> truthy (fst g)
            \<and> (\<exists>response_text e. fst a = Inr response_text
                  \<and> parse_response loads response_text = Inl e) \<longrightarrow>
            fst r = default_recommendations))"
proof -
  let ?r = "get_recommendations be loads user_history preferences w"
  let ?c = "configure_gemini be w"
  have quiet: "filter is_outbound (drop (length (trace w)) (trace (snd ?r))) = []"
    if "user_history = []"
  proof -
    have "snd ?r = snd ?c"
      using that by (simp add: get_recommendations_def split_beta bool.case_eq_if)
    moreover obtain es where "trace (snd ?c) = trace w @ es"
      "list_all (\<lambda>e. \<not> is_outbound e) es"
      using configure_gemini_trace by blast
    ultimately show ?thesis
      by (simp add: list_all_iff filter_empty_conv)
  qed
  show ?thesis
    unfolding Let_def using quiet
    by (auto simp add: get_recommendations_def split_beta bool.case_eq_if)
qed

lemma sample_configure:
  "configure_gemini sample_backend sample_world = (True, log [Configure ''key''] sample_world)"
  "configure_gemini failing_backend sample_world = (True, log [Configure ''key''] sample_world)"
  by (simp_all add: configure_gemini_def sample_backend_def failing_backend_def
      sample_world_def initial_world_def log_def)

lemma failing_model:
  "fst (get_working_model failing_backend (log [Configure ''key''] sample_world))
     = Some ''gemini-1.5-flash''"
  by (simp add: get_working_model_def test_api_key_and_list_models_def failing_backend_def
      sample_world_def initial_world_def sample_listing_def startswith_def truthy_def
      preferred_def log_def)

theorem get_recommendations_never_fails_witness:
  "fst (get_recommendations sample_backend sample_loads [] [] sample_world)
     = fallback_recommendations
   \<and> filter is_outbound
       (trace (snd (get_recommendations sample_backend sample_loads [] [] sample_world))) = []
   \<and> fst (configure_gemini failing_backend sample_world)
   \<and> truthy (fst (get_working_model failing_backend (snd (configure_gemini failing_backend sample_world))))
   \<and> fst (get_recommendations failing_backend sample_loads [''Python''] [] sample_world)
       = default_recommendations"
proof -
  have t: "trace sample_world = []"
    by (simp add: sample_world_def initial_world_def)
  have m: "truthy (fst (get_working_model failing_backend
             (snd (configure_gemini failing_backend sample_world))))"
    by (simp add: sample_configure failing_model truthy_def)
  have a: "\<exists>e. fst (ask_model failing_backend
             (the (fst (get_working_model failing_backend
                (snd (configure_gemini failing_backend sample_world)))))
             (RecommendTask [''Python''] [])
             (snd (get_working_model failing_backend
                (snd (configure_gemini failing_backend sample_world))))) = Inl e"
    by (simp add: ask_model_def failing_backend_def split_beta)
  have c: "fst (configure_gemini failing_backend sample_world)"
    by (simp add: sample_configure)
  show ?thesis
    using get_recommendations_never_fails [of sample_backend sample_loads "[]" "[]" sample_world]
      get_recommendations_never_fails
        [of failing_backend sample_loads "[''Python'']" "[]" sample_world]
      t m a c
    by (simp add: Let_def)
qed

text \<open>
  C1. Every operation is to check the rate limit before any outbound call.
  \<^verbatim>\<open>get_recommendations\<close>, evaluated for a user with a history in a session whose
  quota is used up: the models are listed and the content is generated, no rate-limit
  check is among the events, and the counter is untouched. \<^verbatim>\<open>generate_quiz\<close> in the
  same session, 30 seconds into the window, is denied and makes no outbound call.
\<close>

theorem get_recommendations_not_rate_limited:
  "trace (snd (get_recommendations sample_backend sample_loads [''Python''] [] exhausted_world))
     = [Configure ''key'', Configure ''key'', ListModels,
        Generate ''gemini-1.5-flash'' (RecommendTask [''Python''] [])]
   \<and> gated False
        (trace (snd (get_recommendations sample_backend sample_loads [''Python''] []
                       exhausted_world))) = False
   \<and> request_count
        (snd (get_recommendations sample_backend sample_loads [''Python''] [] exhausted_world))
       = 10
   \<and> generate_quiz sample_backend sample_loads 130 ''Python'' ''Easy'' 3 exhausted_world
       = (None, log [Configure ''key'', UiWarning 30, Permit False] exhausted_world)"
proof -
  have p: "parse_response sample_loads (fence_json quiz_text) = Inr quiz_value"
    by (simp add: parse_response_def clean_response_fenced quiz_text_shape sample_loads_def)
  have r: "snd (get_recommendations sample_backend sample_loads [''Python''] [] exhausted_world)
             = exhausted_world\<lparr> working_model := Some ''gemini-1.5-flash'', bstate := 2,
                 trace := [Configure ''key'', Configure ''key'', ListModels,
                           Generate ''gemini-1.5-flash'' (RecommendTask [''Python''] [])] \<rparr>"
    by (simp add: get_recommendations_def configure_gemini_def get_working_model_def
        test_api_key_and_list_models_def ask_model_def sample_backend_def exhausted_world_def
        sample_world_def initial_world_def sample_listing_def startswith_def truthy_def
        preferred_def log_def p numeral_2_eq_2)
  have q: "generate_quiz sample_backend sample_loads 130 ''Python'' ''Easy'' 3 exhausted_world
             = (None, log [Configure ''key'', UiWarning 30, Permit False] exhausted_world)"
    by (simp add: generate_quiz_def configure_gemini_def rate_limit_check_def Let_def
        sample_backend_def exhausted_world_def sample_world_def initial_world_def log_def
        py_int_def)
  show ?thesis
    unfolding r q by (simp add: exhausted_world_def)
qed

section \<open>Decoding inside the operations: properties\<close>

text \<open>
  C5, amended. Let \<^verbatim>\<open>generate_quiz\<close> or \<^verbatim>\<open>generate_course\<close> have passed the
  configuration, the rate-limit check and the model resolution, and let the backend have
  answered with the text \<open>raw\<close>. Whenever the decoder raises on the cleaned text, the
  operation returns \<^verbatim>\<open>None\<close> and shows \<^verbatim>\<open>Error generating quiz: \<close> or
  \<^verbatim>\<open>Error generating course: \<close> followed by the message of the exception, and nothing
  else: the raw text is not kept. Whenever the decoder returns a value, no key is
  checked: \<^verbatim>\<open>generate_quiz\<close> returns the value as it is, and
  \<^verbatim>\<open>generate_course\<close> returns it with the three stamps when it is a dictionary and
  fails as above, with the message of the item assignment, when it is not. In every
  case the operation returns; nothing is raised past its \<^verbatim>\<open>try\<close> block.
\<close>

theorem generation_fails_with_cause_and_checks_no_keys:
  "(let c = configure_gemini be w;
        p = rate_limit_check now (snd c);
        g = get_working_model be (snd p);
        w3 = log [UiInfo (''Using model: '' @ the (fst g))] (snd g);
        aq = ask_model be (the (fst g)) (QuizTask topic difficulty num_questions) w3;
        ac = ask_model be (the (fst g)) (CourseTask topic level duration) w3
    in fst c \<and> fst p \<and> truthy (fst g) \<longrightarrow>
         (fst aq = Inr raw \<and> loads (clean_response raw) = Inl e \<longrightarrow>
            generate_quiz be loads now topic difficulty num_questions w
              = (None, log [UiError (''Error generating quiz: '' @ e)] (snd aq)))
       \<and> (fst aq = Inr raw \<and> loads (clean_response raw) = Inr v \<longrightarrow>
            generate_quiz be loads now topic difficulty num_questions w = (Some v, snd aq))
       \<and> (fst ac = Inr raw \<and> loads (clean_response raw) = Inl e \<longrightarrow>
            generate_course be loads now today topic level duration w
              = (None, log [UiError (''Error generating course: '' @ e)] (snd ac)))
       \<and> (fst ac = Inr raw \<and> loads (clean_response raw) = Inr (JObj kvs) \<longrightarrow>
            generate_course be loads now today topic level duration w
              = (Some (JObj (AList.update ''level'' (JStr level)
                        (AList.update ''user_topic'' (JStr topic)
                          (AList.update ''created_date'' (JStr today) kvs)))),
                 snd ac))
       \<and> (fst ac = Inr raw \<and> loads (clean_response raw) = Inr v \<and> (\<forall>kvs. v \<noteq> JObj kvs) \<longrightarrow>
            generate_course be loads now today topic level duration w
              = (None, log [UiError (''Error generating course: '' @ setitem_message v)]
                         (snd ac))))"
proof -
  note ft = from_text_results [of loads raw e today topic level v kvs]
  show ?thesis
    unfolding Let_def using ft
    by (simp add: generate_quiz_def generate_course_def split_beta bool.case_eq_if)
qed

text \<open>The steps before the decoding, for a backend that answers with a given text.\<close>

lemma replying_steps:
  "fst (configure_gemini (replying_backend t) sample_world)"
  "fst (rate_limit_check 100 (snd (configure_gemini (replying_backend t) sample_world)))"
  "fst (get_working_model (replying_backend t)
          (snd (rate_limit_check 100 (snd (configure_gemini (replying_backend t) sample_world)))))
     = Some ''gemini-1.5-flash''"
  "fst (ask_model (replying_backend t) m task w') = Inr t"
  by (simp_all add: configure_gemini_def rate_limit_check_def Let_def get_working_model_def
      test_api_key_and_list_models_def ask_model_def replying_backend_def sample_world_def
      initial_world_def sample_listing_def startswith_def truthy_def preferred_def log_def)

theorem generation_fails_with_cause_and_checks_no_keys_witness:
  \<open>sample_loads (clean_response truncated_reply)
      = Inl ''Expecting value: line 1 column 58 (char 57)''
   \<and> fst (generate_quiz (replying_backend truncated_reply) sample_loads 100
             ''Sums'' ''Easy'' 3 sample_world) = None
   \<and> last (trace (snd (generate_quiz (replying_backend truncated_reply) sample_loads 100
             ''Sums'' ''Easy'' 3 sample_world)))
       = UiError ''Error generating quiz: Expecting value: line 1 column 58 (char 57)''
   \<and> fst (generate_course (replying_backend truncated_reply) sample_loads 100 ''2026-01-01''
             ''Sums'' ''Beginner'' ''1 week'' sample_world) = None
   \<and> last (trace (snd (generate_course (replying_backend truncated_reply) sample_loads 100
             ''2026-01-01'' ''Sums'' ''Beginner'' ''1 week'' sample_world)))
       = UiError ''Error generating course: Expecting value: line 1 column 58 (char 57)''
   \<and> sample_loads (clean_response ''{"foo": 1}'') = Inr (JObj [(''foo'', JInt 1)])
   \<and> fst (generate_quiz (replying_backend ''{"foo": 1}'') sample_loads 100
             ''Sums'' ''Easy'' 3 sample_world) = Some (JObj [(''foo'', JInt 1)])
   \<and> fst (generate_course (replying_backend ''{"foo": 1}'') sample_loads 100 ''2026-01-01''
             ''Sums'' ''Beginner'' ''1 week'' sample_world)
       = Some (JObj [(''foo'', JInt 1), (''created_date'', JStr ''2026-01-01''),
                     (''user_topic'', JStr ''Sums''), (''level'', JStr ''Beginner'')])\<close>
proof -
  have 1: \<open>sample_loads (clean_response truncated_reply)
             = Inl ''Expecting value: line 1 column 58 (char 57)''\<close>
    by (simp add: clean_response_truncated_reply sample_loads_def quiz_text_def)
  have 2: \<open>sample_loads (clean_response ''{"foo": 1}'') = Inr (JObj [(''foo'', JInt 1)])\<close>
    by (simp add: clean_response_foo sample_loads_def quiz_text_def)
  have t: "truthy (Some ''gemini-1.5-flash'')" by (simp add: truthy_def)
  show ?thesis
    using 1 2 t
      generation_fails_with_cause_and_checks_no_keys
        [of "replying_backend truncated_reply" sample_world 100 "''Sums''" "''Easy''" 3
            "''Beginner''" "''1 week''" truncated_reply sample_loads
            "''Expecting value: line 1 column 58 (char 57)''" "JNull" "''2026-01-01''" "[]"]
      generation_fails_with_cause_and_checks_no_keys
        [of \<open>replying_backend ''{"foo": 1}''\<close> sample_world 100 "''Sums''" "''Easy''" 3
            "''Beginner''" "''1 week''" \<open>''{"foo": 1}''\<close> sample_loads
            "[]" "JObj [(''foo'', JInt 1)]" "''2026-01-01''" "[(''foo'', JInt 1)]"]
    by (simp add: Let_def replying_steps)
qed

end
